theory Spec2Isabelle
  imports Complex_Main "HOL-Library.Char_ord" "HOL-Library.List_Lexorder"
begin

section \<open>The time travel control of the component library\<close>

text \<open>
  The component \<^verbatim>\<open>TimeTravel\<close> keeps a focused timestamp inside the available history,
  a zoom level in milliseconds per pixel and a live mode, and it reports timestamp
  changes to its host through \<^verbatim>\<open>onChangeTimestamp\<close>, directly or through a debounced
  wrapper. The embedding below follows the class method by method. A method that reads
  and writes \<^verbatim>\<open>this\<close> is a function from the component to the updated component; the
  callbacks of the host that a method invokes are appended to a trace.
\<close>

subsection \<open>Timestamps and numbers\<close>

text \<open>
  Inside the component a timestamp is a JavaScript string: one that \<^verbatim>\<open>formattedTimestamp\<close>
  has returned, or the property \<^verbatim>\<open>earliestTimestamp\<close> as the host has written it. The
  methods compare these strings with \<^verbatim>\<open><\<close>, \<^verbatim>\<open>>\<close> and \<^verbatim>\<open>!==\<close>, character by character,
  and they hand them to \<^verbatim>\<open>moment\<close> to read the instant. The parser of \<^verbatim>\<open>moment\<close> is not
  part of the model: a timestamp is the string together with the instant that \<^verbatim>\<open>moment\<close>
  reads from it, in milliseconds since the Unix epoch, and without an instant when
  \<^verbatim>\<open>moment\<close> cannot read the string. The empty string stands for every value that
  JavaScript takes as false.

  The reading of the wall clock, which \<^verbatim>\<open>formattedTimestamp()\<close> and the timers of the
  debounced wrappers consult, is an instant; it is passed to every method that needs it.

  Durations and pixel counts are JavaScript numbers; they are represented by reals, so
  rounding is not part of the model, and a number that can be \<^verbatim>\<open>NaN\<close> is an option with
  \<open>None\<close> for \<^verbatim>\<open>NaN\<close>.
\<close>

type_synonym instant = int

type_synonym number = "real option"

record timestamp =
  chars :: string
  moment :: "instant option"

definition truthy :: "timestamp \<Rightarrow> bool" where
  "truthy s = (chars s \<noteq> [])"

subsection \<open>Timestamps in UTC\<close>

text \<open>
  Modelled from the spec: \<^verbatim>\<open>formattedTimestamp\<close> of \<^verbatim>\<open>utils/timeline\<close> is not among the
  sources. The spec describes timestamps as strings in one representation, like ISO 8601,
  with a precision of seconds or finer and explicit UTC. The definitions of this
  subsection write an instant in that representation. First the date of a day, counted
  from 1 January 1970, in the Gregorian calendar: the year, the month and the day of the
  month. The computation goes through the eras of 400 years, which have 146097 days each
  and begin on 1 March.
\<close>

definition yearOfEra :: "int \<Rightarrow> int" where
  "yearOfEra doe = (doe - doe div 1460 + doe div 36524 - doe div 146096) div 365"

definition dayOfYear :: "int \<Rightarrow> int \<Rightarrow> int" where
  "dayOfYear doe yoe = doe - (365 * yoe + yoe div 4 - yoe div 100)"

definition monthOf :: "int \<Rightarrow> int" where
  "monthOf mp = (if mp < 10 then mp + 3 else mp - 9)"

definition civilOfDay :: "int \<Rightarrow> int \<Rightarrow> int \<times> int \<times> int" where
  "civilOfDay y doy =
     (y + (if monthOf ((5 * doy + 2) div 153) \<le> 2 then 1 else 0),
      monthOf ((5 * doy + 2) div 153),
      doy - (153 * ((5 * doy + 2) div 153) + 2) div 5 + 1)"

definition civilOfEra :: "int \<Rightarrow> int \<Rightarrow> int \<times> int \<times> int" where
  "civilOfEra era doe =
     civilOfDay (yearOfEra doe + era * 400) (dayOfYear doe (yearOfEra doe))"

definition civil :: "int \<Rightarrow> int \<times> int \<times> int" where
  "civil days = civilOfEra ((days + 719468) div 146097) ((days + 719468) mod 146097)"

text \<open>
  Modelled from the spec: the decimal digits of the date and the time, with leading
  zeros, as \<^verbatim>\<open>formattedTimestamp\<close> writes them.
\<close>

definition digit :: "nat \<Rightarrow> char" where
  "digit d = ''0123456789'' ! (d mod 10)"

definition zeroFill2 :: "nat \<Rightarrow> string" where
  "zeroFill2 n = [digit (n div 10), digit n]"

definition zeroFill3 :: "nat \<Rightarrow> string" where
  "zeroFill3 n = [digit (n div 100), digit (n div 10), digit n]"

definition zeroFill4 :: "nat \<Rightarrow> string" where
  "zeroFill4 n = [digit (n div 1000), digit (n div 100), digit (n div 10), digit n]"

text \<open>
  Modelled from the spec: a year has four digits, or up to six where the JavaScript
  dates need them; the date, the time of the day and the whole timestamp in UTC, as
  \<^verbatim>\<open>2020-09-13T12:26:40Z\<close>, with the milliseconds after the seconds when they are not zero.
\<close>

definition yearString :: "int \<Rightarrow> string" where
  "yearString y =
     (if y < 0 then ''-'' else [])
     @ (if \<bar>y\<bar> < 10000 then []
        else if \<bar>y\<bar> < 100000 then [digit (nat (\<bar>y\<bar> div 10000))]
        else [digit (nat (\<bar>y\<bar> div 100000)), digit (nat (\<bar>y\<bar> div 10000))])
     @ zeroFill4 (nat \<bar>y\<bar>)"

fun dateString :: "int \<times> int \<times> int \<Rightarrow> string" where
  "dateString (y, m, d) = yearString y @ ''-'' @ zeroFill2 (nat m) @ ''-'' @ zeroFill2 (nat d)"

definition timeString :: "int \<Rightarrow> int \<Rightarrow> string" where
  "timeString s ms =
     zeroFill2 (nat (s div 3600 mod 24)) @ '':'' @ zeroFill2 (nat (s div 60 mod 60))
     @ '':'' @ zeroFill2 (nat (s mod 60))
     @ (if ms = 0 then [] else ''.'' @ zeroFill3 (nat ms))"

definition utcString :: "instant \<Rightarrow> string" where
  "utcString i =
     dateString (civil (i div 1000 div 86400)) @ ''T''
     @ timeString (i div 1000) (i mod 1000) @ ''Z''"

text \<open>
  Modelled from the spec: \<^verbatim>\<open>formattedTimestamp\<close> of \<^verbatim>\<open>utils/timeline\<close> is not among the
  sources. By the spec every computation normalises to UTC, so the function keeps the
  instant of the timestamp it is given and writes it in UTC; the component calls it
  without an argument for the current time. About a string that cannot be read the spec
  says nothing; for it the function returns what \<^verbatim>\<open>moment\<close> prints for an invalid date.
\<close>

definition utc :: "instant \<Rightarrow> timestamp" where
  "utc i = \<lparr> chars = utcString i, moment = Some i \<rparr>"

definition formattedTimestamp :: "instant \<Rightarrow> timestamp option \<Rightarrow> timestamp" where
  "formattedTimestamp clock rawTimestamp =
     (case rawTimestamp of
        None \<Rightarrow> utc clock
      | Some raw \<Rightarrow>
          (case moment raw of
             None \<Rightarrow> \<lparr> chars = ''Invalid date'', moment = None \<rparr>
           | Some i \<Rightarrow> utc i))"

text \<open>
  Modelled from the spec: \<^verbatim>\<open>getTimeScale\<close> of \<^verbatim>\<open>utils/timeline\<close> is not among the sources.
  The spec gives the scale as
  \<^verbatim>\<open>pixelOffset(t) = (t - focusedTimestamp) / durationMsPerPixel\<close>. The scale is applied
  to a moment; the result is \<^verbatim>\<open>NaN\<close> when the moment, the focused timestamp or the
  duration per pixel is not a number.
\<close>

definition getTimeScale :: "timestamp \<Rightarrow> number \<Rightarrow> instant option \<Rightarrow> number" where
  "getTimeScale focusedTimestamp durationMsPerPixel t =
     (case (t, moment focusedTimestamp, durationMsPerPixel) of
        (Some ti, Some focused, Some d) \<Rightarrow> Some (real_of_int (ti - focused) / d)
      | _ \<Rightarrow> None)"

text \<open>
  \<^verbatim>\<open>clamp(number, lower, upper)\<close> of lodash: a bound that is \<^verbatim>\<open>NaN\<close> counts as zero, the
  number \<^verbatim>\<open>NaN\<close> is returned as it is, and to any other number first the upper bound
  is applied, then the lower one.
\<close>

definition baseClamp :: "real \<Rightarrow> real \<Rightarrow> real \<Rightarrow> real" where
  "baseClamp number lower upper =
     (let number1 = (if number \<le> upper then number else upper)
      in if number1 \<ge> lower then number1 else lower)"

definition clamp :: "number \<Rightarrow> number \<Rightarrow> number \<Rightarrow> number" where
  "clamp number lower upper =
     (let upper1 = (case upper of None \<Rightarrow> 0 | Some u \<Rightarrow> u);
          lower1 = (case lower of None \<Rightarrow> 0 | Some l \<Rightarrow> l)
      in case number of
           None \<Rightarrow> None
         | Some n \<Rightarrow> Some (baseClamp n lower1 upper1))"

subsection \<open>The zoom range\<close>

text \<open>The difference of two moments is \<^verbatim>\<open>NaN\<close> when one of them is invalid.\<close>

definition availableTimelineDurationMs :: "instant \<Rightarrow> timestamp \<Rightarrow> number" where
  "availableTimelineDurationMs clock earliestTimestamp =
     (let earliestMomentTimestamp = moment earliestTimestamp;
          currentMomentTimestamp = moment (formattedTimestamp clock None)
      in case (currentMomentTimestamp, earliestMomentTimestamp) of
           (Some current, Some earliest) \<Rightarrow> Some (real_of_int (current - earliest))
         | _ \<Rightarrow> None)"

definition minDurationMsPerTimelinePx :: real where
  "minDurationMsPerTimelinePx = 500"

definition maxDurationMsPerTimelinePx :: "instant \<Rightarrow> timestamp \<Rightarrow> number" where
  "maxDurationMsPerTimelinePx clock earliestTimestamp =
     (let durationMsLowerBound = minDurationMsPerTimelinePx;
          durationMsUpperBound = 3 * 24 * 60 * 60 * 1000;
          durationMs =
            map_option (\<lambda>ms. ms / 400) (availableTimelineDurationMs clock earliestTimestamp)
      in clamp durationMs (Some durationMsLowerBound) (Some durationMsUpperBound))"

definition initialDurationMsPerTimelinePx :: "instant \<Rightarrow> timestamp \<Rightarrow> number" where
  "initialDurationMsPerTimelinePx clock earliestTimestamp =
     (let durationMsLowerBound = minDurationMsPerTimelinePx;
          durationMsUpperBound = 60 * 1000;
          durationMs =
            map_option (\<lambda>ms. ms * (1 / 10)) (maxDurationMsPerTimelinePx clock earliestTimestamp)
      in clamp durationMs (Some durationMsLowerBound) (Some durationMsUpperBound))"

subsection \<open>Debounced functions\<close>

text \<open>
  \<^verbatim>\<open>debounce(func, wait)\<close> of lodash with its default options: a call stores its argument
  and the time of the call and makes sure that a timer runs; a later call replaces both.
  When the timer expires and \<^verbatim>\<open>wait\<close> milliseconds have passed since the last call (or
  the clock went backwards), \<^verbatim>\<open>func\<close> is invoked with the stored argument; otherwise the
  timer is set again for the remaining time. \<^verbatim>\<open>cancel\<close> clears the timer and forgets the
  stored argument. A debounced function is therefore the pending argument with the time
  of the last call, if any.
\<close>

type_synonym 'a debounced = "('a \<times> instant) option"

definition debounced :: "'a \<Rightarrow> instant \<Rightarrow> 'a debounced \<Rightarrow> 'a debounced" where
  "debounced args time d = Some (args, time)"

definition cancel :: "'a debounced \<Rightarrow> 'a debounced" where
  "cancel d = None"

definition timerExpired :: "int \<Rightarrow> instant \<Rightarrow> 'a debounced \<Rightarrow> 'a option \<times> 'a debounced" where
  "timerExpired wait time d =
     (case d of
        None \<Rightarrow> (None, None)
      | Some (lastArgs, lastCallTime) \<Rightarrow>
          (let timeSinceLastCall = time - lastCallTime
           in if timeSinceLastCall \<ge> wait \<or> timeSinceLastCall < 0
              then (Some lastArgs, None)
              else (None, d)))"

subsection \<open>The component\<close>

text \<open>
  The properties are those the methods read. \<^verbatim>\<open>earliestTimestamp\<close> is the string of the
  host, which the component never formats; its default is the first second of 2014.
  \<^verbatim>\<open>timestamp\<close> may be absent. The host is taken to supply every callback that a method
  invokes.

  A method changes the state with \<^verbatim>\<open>setState\<close>. No method reads a field of the state
  after it has written that field, so the updates are applied here in the order of the
  calls, whether React applies them at once or at the end of the method.
\<close>

record props =
  timestamp :: "timestamp option"
  earliestTimestamp :: timestamp
  hasLiveMode :: bool
  showingLive :: bool
  hasRangeSelector :: bool
  rangeMs :: real

definition defaultProps :: props where
  "defaultProps =
     \<lparr> timestamp = None,
       earliestTimestamp = \<lparr> chars = ''2014-01-01T00:00:00Z'', moment = Some 1388534400000 \<rparr>,
       hasLiveMode = False,
       showingLive = True,
       hasRangeSelector = False,
       rangeMs = 3600000 \<rparr>"

record state =
  timestampNow :: timestamp
  focusedTimestamp :: timestamp
  durationMsPerPixel :: number
  showingLive :: bool
  rangeMs :: real
  timelineWidthPx :: real

datatype callback =
    OnChangeTimestamp timestamp
  | OnChangeRange real
  | OnChangeLiveMode bool
  | OnTimestampInputEdit
  | OnTimelinePanButtonClick
  | OnTimelineLabelClick
  | OnTimelinePan

record TimeTravel =
  props :: props
  state :: state
  delayedReportZoom :: "unit debounced"
  delayedOnChangeTimestamp :: "timestamp debounced"
  calls :: "callback list"

definition constructor :: "instant \<Rightarrow> props \<Rightarrow> TimeTravel" where
  "constructor clock p =
     \<lparr> props = p,
       state =
         \<lparr> timestampNow = formattedTimestamp clock None,
           focusedTimestamp = formattedTimestamp clock (timestamp p),
           durationMsPerPixel = initialDurationMsPerTimelinePx clock (earliestTimestamp p),
           showingLive = props.showingLive p,
           rangeMs = props.rangeMs p,
           timelineWidthPx = 1 \<rparr>,
       delayedReportZoom = None,
       delayedOnChangeTimestamp = None,
       calls = [] \<rparr>"

text \<open>The body of the interval callback that \<^verbatim>\<open>componentDidMount\<close> installs.\<close>

definition tick :: "instant \<Rightarrow> TimeTravel \<Rightarrow> TimeTravel" where
  "tick clock this =
     (let timestampNow' = formattedTimestamp clock None;
          this1 = this\<lparr>state := (state this)\<lparr>timestampNow := timestampNow'\<rparr>\<rparr>
      in if hasLiveMode (props this1) \<and> state.showingLive (state this1)
         then this1\<lparr>state := (state this1)\<lparr>focusedTimestamp := timestampNow'\<rparr>\<rparr>
         else this1)"

definition componentWillReceiveProps :: "instant \<Rightarrow> props \<Rightarrow> TimeTravel \<Rightarrow> TimeTravel" where
  "componentWillReceiveProps clock nextProps this =
     (if hasLiveMode (props this) \<and> props.showingLive nextProps then this
      else if \<not> props.showingLive nextProps \<and> props.showingLive (props this) then this
      else (case timestamp nextProps of
              Some t \<Rightarrow>
                if truthy t
                then this\<lparr>state := (state this)
                  \<lparr>focusedTimestamp := formattedTimestamp clock (timestamp nextProps),
                   state.rangeMs := props.rangeMs nextProps\<rparr>\<rparr>
                else this
            | None \<Rightarrow> this))"

text \<open>
  The two comparisons are comparisons of strings, and each is made only when the bound
  is a string that is not empty.
\<close>

definition clampedTimestamp :: "instant \<Rightarrow> TimeTravel \<Rightarrow> timestamp \<Rightarrow> timestamp" where
  "clampedTimestamp clock this rawTimestamp =
     (let timestamp0 = formattedTimestamp clock (Some rawTimestamp);
          startTimestamp = earliestTimestamp (props this);
          endTimestamp = timestampNow (state this);
          timestamp1 =
            (if truthy startTimestamp \<and> chars timestamp0 < chars startTimestamp
             then startTimestamp else timestamp0);
          timestamp2 =
            (if truthy endTimestamp \<and> chars timestamp1 > chars endTimestamp
             then endTimestamp else timestamp1)
      in timestamp2)"

definition clampedDuration :: "instant \<Rightarrow> TimeTravel \<Rightarrow> real \<Rightarrow> number" where
  "clampedDuration clock this duration =
     (let minDurationMs = minDurationMsPerTimelinePx;
          maxDurationMs = maxDurationMsPerTimelinePx clock (earliestTimestamp (props this))
      in clamp (Some duration) (Some minDurationMs) maxDurationMs)"

text \<open>
  \<^verbatim>\<open>nextState\<close> is either absent or the object \<^verbatim>\<open>{ focusedTimestamp: timestamp }\<close>, which
  overrides the focused timestamp of the state in the scale. A comparison with \<^verbatim>\<open>NaN\<close>
  is false.
\<close>

definition shouldStickySwitchToLiveMode :: "TimeTravel \<Rightarrow> timestamp option \<Rightarrow> bool" where
  "shouldStickySwitchToLiveMode this nextState =
     (let focused = (case nextState of None \<Rightarrow> focusedTimestamp (state this) | Some t \<Rightarrow> t);
          timeScale = getTimeScale focused (durationMsPerPixel (state this));
          timestampCloseToNow =
            (case timeScale (moment (timestampNow (state this))) of
               None \<Rightarrow> False
             | Some px \<Rightarrow> px < 10)
      in timestampCloseToNow \<and> hasLiveMode (props this) \<and> \<not> state.showingLive (state this))"

definition setFocusedTimestamp :: "instant \<Rightarrow> timestamp \<Rightarrow> TimeTravel \<Rightarrow> TimeTravel" where
  "setFocusedTimestamp clock timestamp' this =
     (let focusedTimestamp' = clampedTimestamp clock this timestamp'
      in if chars focusedTimestamp' \<noteq> chars (focusedTimestamp (state this))
         then this
           \<lparr>delayedOnChangeTimestamp := cancel (delayedOnChangeTimestamp this),
            calls := calls this @ [OnChangeTimestamp focusedTimestamp'],
            state := (state this)\<lparr>focusedTimestamp := focusedTimestamp'\<rparr>\<rparr>
         else this)"

text \<open>
  In \<^verbatim>\<open>handleRangeChange\<close> the divisor is zero when the width of the timeline is zero.
  JavaScript then yields \<^verbatim>\<open>Infinity\<close> for a positive range, which \<^verbatim>\<open>clamp\<close> brings down to
  the upper bound and then up to the lower bound if the upper bound is below it,
  \<^verbatim>\<open>-Infinity\<close> for a negative range, which \<^verbatim>\<open>clamp\<close> brings up to the lower bound, and
  \<^verbatim>\<open>NaN\<close> for \<^verbatim>\<open>0 / 0\<close>, which \<^verbatim>\<open>clamp\<close> returns as it is.
\<close>

definition handleRangeChange :: "instant \<Rightarrow> real \<Rightarrow> TimeTravel \<Rightarrow> TimeTravel" where
  "handleRangeChange clock rangeMs' this =
     (let timelineThird = timelineWidthPx (state this) / 3;
          durationMsPerPixel' =
            (if timelineThird \<noteq> 0 then clampedDuration clock this (rangeMs' / timelineThird)
             else if rangeMs' > 0
               then (let maxDurationMs =
                           (case maxDurationMsPerTimelinePx clock (earliestTimestamp (props this)) of
                              None \<Rightarrow> 0 | Some m \<Rightarrow> m)
                     in Some (if maxDurationMs \<ge> minDurationMsPerTimelinePx
                              then maxDurationMs else minDurationMsPerTimelinePx))
             else if rangeMs' < 0 then Some minDurationMsPerTimelinePx
             else None)
      in this
           \<lparr>state := (state this)
              \<lparr>state.rangeMs := rangeMs', durationMsPerPixel := durationMsPerPixel'\<rparr>,
            calls := calls this @ [OnChangeRange rangeMs']\<rparr>)"

definition handleInputChange :: "instant \<Rightarrow> timestamp \<Rightarrow> TimeTravel \<Rightarrow> TimeTravel" where
  "handleInputChange clock timestamp' this =
     (let this1 = setFocusedTimestamp clock timestamp' this
      in this1\<lparr>calls := calls this1 @ [OnTimestampInputEdit]\<rparr>)"

definition handleTimelineJump :: "instant \<Rightarrow> timestamp \<Rightarrow> TimeTravel \<Rightarrow> TimeTravel" where
  "handleTimelineJump clock timestamp' this =
     (let this1 = this\<lparr>state := (state this)\<lparr>state.showingLive := False\<rparr>\<rparr>;
          this2 = setFocusedTimestamp clock timestamp' this1
      in this2\<lparr>calls := calls this2 @ [OnTimelineLabelClick]\<rparr>)"

definition handleTimelinePanButtonClick :: "instant \<Rightarrow> timestamp \<Rightarrow> TimeTravel \<Rightarrow> TimeTravel" where
  "handleTimelinePanButtonClick clock timestamp' this =
     (let this2 =
            (if shouldStickySwitchToLiveMode this (Some timestamp')
             then setFocusedTimestamp clock (timestampNow (state this))
                    (this\<lparr>state := (state this)\<lparr>state.showingLive := True\<rparr>\<rparr>)
             else setFocusedTimestamp clock timestamp'
                    (this\<lparr>state := (state this)\<lparr>state.showingLive := False\<rparr>\<rparr>))
      in this2\<lparr>calls := calls this2 @ [OnTimelinePanButtonClick]\<rparr>)"

definition handleTimelineZoom :: "instant \<Rightarrow> real \<Rightarrow> TimeTravel \<Rightarrow> TimeTravel" where
  "handleTimelineZoom clock duration this =
     (let durationMsPerPixel' = clampedDuration clock this duration
      in this
           \<lparr>state := (state this)\<lparr>durationMsPerPixel := durationMsPerPixel'\<rparr>,
            delayedReportZoom := debounced () clock (delayedReportZoom this)\<rparr>)"

definition handleTimelinePan :: "instant \<Rightarrow> timestamp \<Rightarrow> TimeTravel \<Rightarrow> TimeTravel" where
  "handleTimelinePan clock timestamp' this =
     (let focusedTimestamp' = clampedTimestamp clock this timestamp'
      in this
           \<lparr>state := (state this)
              \<lparr>state.showingLive := False, focusedTimestamp := focusedTimestamp'\<rparr>,
            delayedOnChangeTimestamp :=
              debounced focusedTimestamp' clock (delayedOnChangeTimestamp this)\<rparr>)"

definition handleTimelineRelease :: "instant \<Rightarrow> TimeTravel \<Rightarrow> TimeTravel" where
  "handleTimelineRelease clock this =
     (let this2 =
            (if shouldStickySwitchToLiveMode this None
             then setFocusedTimestamp clock (timestampNow (state this))
                    (this\<lparr>state := (state this)\<lparr>state.showingLive := True\<rparr>\<rparr>)
             else this)
      in this2\<lparr>calls := calls this2 @ [OnTimelinePan]\<rparr>)"

definition handleTimelineResize :: "real \<Rightarrow> TimeTravel \<Rightarrow> TimeTravel" where
  "handleTimelineResize timelineWidthPx' this =
     this\<lparr>state := (state this)\<lparr>timelineWidthPx := timelineWidthPx'\<rparr>\<rparr>"

definition handleLiveModeToggle :: "bool \<Rightarrow> TimeTravel \<Rightarrow> TimeTravel" where
  "handleLiveModeToggle showingLive' this =
     (let this1 = this\<lparr>state := (state this)\<lparr>state.showingLive := showingLive'\<rparr>\<rparr>;
          this2 =
            (if showingLive'
             then this1\<lparr>state := (state this1)\<lparr>focusedTimestamp := timestampNow (state this1)\<rparr>\<rparr>
             else this1)
      in this2\<lparr>calls := calls this2 @ [OnChangeLiveMode showingLive']\<rparr>)"

text \<open>
  The timer of \<^verbatim>\<open>delayedOnChangeTimestamp\<close>, which the constructor creates with a wait of
  500 milliseconds around \<^verbatim>\<open>props.onChangeTimestamp\<close>, expires.
\<close>

definition onChangeTimestampTimer :: "instant \<Rightarrow> TimeTravel \<Rightarrow> TimeTravel" where
  "onChangeTimestampTimer clock this =
     (case timerExpired 500 clock (delayedOnChangeTimestamp this) of
        (None, d) \<Rightarrow> this\<lparr>delayedOnChangeTimestamp := d\<rparr>
      | (Some lastArgs, d) \<Rightarrow>
          this\<lparr>delayedOnChangeTimestamp := d,
               calls := calls this @ [OnChangeTimestamp lastArgs]\<rparr>)"

subsection \<open>Sessions\<close>

text \<open>
  The component handles one event at a time, each to completion. An event is a gesture
  of the user, a tick of the interval timer, new properties pushed by the host (its
  timestamp, range and live flag; the rest of the configuration stays), or the expiry of
  the timer of the debounced \<^verbatim>\<open>onChangeTimestamp\<close>. Every event comes with the reading
  of the clock at which it is handled. The report of the zoom level that
  \<^verbatim>\<open>delayedReportZoom\<close> sends five seconds later is not part of the sessions.
\<close>

datatype event =
    Pan timestamp
  | PanRelease
  | Zoom real
  | Jump timestamp
  | InputChange timestamp
  | PanButton timestamp
  | SetRange real
  | ToggleLive bool
  | Resize real
  | Tick
  | ReceiveProps "timestamp option" real bool
  | ChangeTimer

fun step :: "instant \<times> event \<Rightarrow> TimeTravel \<Rightarrow> TimeTravel" where
  "step (clock, Pan t) this = handleTimelinePan clock t this"
| "step (clock, PanRelease) this = handleTimelineRelease clock this"
| "step (clock, Zoom d) this = handleTimelineZoom clock d this"
| "step (clock, Jump t) this = handleTimelineJump clock t this"
| "step (clock, InputChange t) this = handleInputChange clock t this"
| "step (clock, PanButton t) this = handleTimelinePanButtonClick clock t this"
| "step (clock, SetRange r) this = handleRangeChange clock r this"
| "step (clock, ToggleLive b) this = handleLiveModeToggle b this"
| "step (clock, Resize w) this = handleTimelineResize w this"
| "step (clock, Tick) this = tick clock this"
| "step (clock, ReceiveProps t r l) this =
     (let nextProps = (props this)\<lparr>timestamp := t, props.rangeMs := r, props.showingLive := l\<rparr>
      in (componentWillReceiveProps clock nextProps this)\<lparr>props := nextProps\<rparr>)"
| "step (clock, ChangeTimer) this = onChangeTimestampTimer clock this"

fun run :: "(instant \<times> event) list \<Rightarrow> TimeTravel \<Rightarrow> TimeTravel" where
  "run [] this = this"
| "run (e # es) this = run es (step e this)"

text \<open>The timer of the debounced \<^verbatim>\<open>onChangeTimestamp\<close> expires at each of the given times.\<close>

definition timers :: "instant list \<Rightarrow> (instant \<times> event) list" where
  "timers ws = map (\<lambda>w. (w, ChangeTimer)) ws"


section \<open>Properties\<close>

subsection \<open>Evaluating timestamps and sessions\<close>

lemmas utc_simps = utc_def utcString_def civil_def civilOfEra_def civilOfDay_def
  monthOf_def dayOfYear_def yearOfEra_def yearString_def timeString_def digit_def
  zeroFill2_def zeroFill3_def zeroFill4_def

lemmas session_simps = constructor_def defaultProps_def formattedTimestamp_def
  initialDurationMsPerTimelinePx_def maxDurationMsPerTimelinePx_def
  availableTimelineDurationMs_def minDurationMsPerTimelinePx_def clamp_def baseClamp_def
  truthy_def Let_def

lemmas handler_simps = handleTimelinePan_def handleTimelineJump_def handleLiveModeToggle_def
  handleTimelinePanButtonClick_def setFocusedTimestamp_def clampedTimestamp_def
  shouldStickySwitchToLiveMode_def getTimeScale_def onChangeTimestampTimer_def
  timerExpired_def debounced_def cancel_def tick_def handleTimelineRelease_def
  handleTimelineZoom_def clampedDuration_def

lemma run_append: "run (es @ fs) this = run fs (run es this)"
  by (induction es arbitrary: this) simp_all

subsection \<open>Formatted timestamps\<close>

lemma utc_truthy [simp]: "chars (utc i) \<noteq> []"
  by (simp add: utc_def utcString_def)

lemma truthy_utc [simp]: "truthy (utc i)"
  by (simp add: truthy_def)

lemma moment_utc [simp]: "moment (utc i) = Some i"
  by (simp add: utc_def)

lemma formattedTimestamp_now [simp]: "formattedTimestamp clock None = utc clock"
  by (simp add: formattedTimestamp_def)

lemma formattedTimestamp_utc [simp]: "formattedTimestamp clock (Some (utc i)) = utc i"
  by (simp add: formattedTimestamp_def)

lemma formattedTimestamp_truthy [simp]: "truthy (formattedTimestamp clock raw)"
  by (simp add: formattedTimestamp_def truthy_def split: option.splits)

subsection \<open>Clamping\<close>

lemma baseClamp_lower: "lower \<le> baseClamp number lower upper"
  by (simp add: baseClamp_def Let_def)

lemma baseClamp_upper: "lower \<le> upper \<Longrightarrow> baseClamp number lower upper \<le> upper"
  by (simp add: baseClamp_def Let_def)

lemma baseClamp_mono: "a \<le> b \<Longrightarrow> baseClamp a lower upper \<le> baseClamp b lower upper"
  by (simp add: baseClamp_def Let_def)

lemma availableTimelineDurationMs_valid:
  "moment e = Some i \<Longrightarrow> availableTimelineDurationMs clock e = Some (real_of_int (clock - i))"
  by (simp add: availableTimelineDurationMs_def)

lemma maxDuration_valid:
  "moment e = Some i \<Longrightarrow>
   maxDurationMsPerTimelinePx clock e
   = Some (baseClamp (real_of_int (clock - i) / 400) 500 259200000)"
  by (simp add: maxDurationMsPerTimelinePx_def availableTimelineDurationMs_valid clamp_def
      minDurationMsPerTimelinePx_def)

lemma maxDuration_span:
  "availableTimelineDurationMs clock e = Some s \<Longrightarrow>
   maxDurationMsPerTimelinePx clock e = Some (baseClamp (s / 400) 500 259200000)"
  by (simp add: maxDurationMsPerTimelinePx_def clamp_def minDurationMsPerTimelinePx_def)

lemma maxDuration_invalid:
  "moment e = None \<Longrightarrow> maxDurationMsPerTimelinePx clock e = None"
  by (simp add: maxDurationMsPerTimelinePx_def availableTimelineDurationMs_def clamp_def)

lemma maxDuration_bounds:
  "maxDurationMsPerTimelinePx clock e = Some m \<Longrightarrow> 500 \<le> m \<and> m \<le> 259200000"
proof (cases "moment e")
  case None
  then show "maxDurationMsPerTimelinePx clock e = Some m \<Longrightarrow> 500 \<le> m \<and> m \<le> 259200000"
    by (simp add: maxDuration_invalid)
next
  case (Some i)
  assume "maxDurationMsPerTimelinePx clock e = Some m"
  then have m: "m = baseClamp (real_of_int (clock - i) / 400) 500 259200000"
    by (simp add: maxDuration_valid [OF Some])
  show "500 \<le> m \<and> m \<le> 259200000"
    unfolding m by (simp add: baseClamp_lower baseClamp_upper)
qed

text \<open>
  The upper bound is applied last: the clamped timestamp is never after the current
  time in the order of the strings, and when the earliest timestamp is after the current
  time, every timestamp is clamped to the current time.
\<close>

lemma clampedTimestamp_upper:
  "truthy (timestampNow (state this))
   \<Longrightarrow> chars (clampedTimestamp clock this t) \<le> chars (timestampNow (state this))"
  by (auto simp add: clampedTimestamp_def Let_def)

lemma clampedTimestamp_empty_range:
  "truthy (timestampNow (state this))
   \<Longrightarrow> chars (timestampNow (state this)) < chars (earliestTimestamp (props this))
   \<Longrightarrow> clampedTimestamp clock this t = timestampNow (state this)"
  by (auto simp add: clampedTimestamp_def Let_def truthy_def)

lemma utc_examples:
  "chars (utc 1599999000000) = ''2020-09-13T12:10:00Z''"
  "chars (utc 1600000200000) = ''2020-09-13T12:30:00Z''"
  "chars (utc 1600000000000) = ''2020-09-13T12:26:40Z''"
  "chars (utc 1600086400000) = ''2020-09-14T12:26:40Z''"
  "chars (utc 1599913600000) = ''2020-09-12T12:26:40Z''"
  by (simp_all add: utc_simps)





subsection \<open>The zoom range\<close>

text \<open>
  C9. For all spans \<open>s1\<close> and \<open>s2\<close> of the available history, the current time minus the
  earliest timestamp in milliseconds, with \<open>s1\<close> not above \<open>s2\<close>: the largest duration per
  pixel over \<open>s1\<close> is a number not above the largest duration per pixel over \<open>s2\<close>.
\<close>

theorem maxDurationMsPerTimelinePx_mono:
  assumes "availableTimelineDurationMs clock1 earliest1 = Some s1"
    and "availableTimelineDurationMs clock2 earliest2 = Some s2"
    and "s1 \<le> s2"
  shows "\<exists>m1 m2. maxDurationMsPerTimelinePx clock1 earliest1 = Some m1
           \<and> maxDurationMsPerTimelinePx clock2 earliest2 = Some m2 \<and> m1 \<le> m2"
proof -
  have "s1 / 400 \<le> s2 / 400"
    using assms(3) by (simp add: divide_right_mono)
  then have "baseClamp (s1 / 400) 500 259200000 \<le> baseClamp (s2 / 400) 500 259200000"
    by (rule baseClamp_mono)
  then show ?thesis
    by (simp add: maxDuration_span [OF assms(1)] maxDuration_span [OF assms(2)])
qed

text \<open>An instance: a span of one day against a span of ten days, from the first day of 2020.\<close>

theorem maxDurationMsPerTimelinePx_mono_witness:
  "availableTimelineDurationMs 1577923200000 (utc 1577836800000) = Some 86400000
   \<and> availableTimelineDurationMs 1578700800000 (utc 1577836800000) = Some 864000000
   \<and> (86400000 :: real) \<le> 864000000
   \<and> maxDurationMsPerTimelinePx 1577923200000 (utc 1577836800000) = Some 216000
   \<and> maxDurationMsPerTimelinePx 1578700800000 (utc 1577836800000) = Some 2160000"
proof -
  have spans:
    "availableTimelineDurationMs 1577923200000 (utc 1577836800000) = Some 86400000"
    "availableTimelineDurationMs 1578700800000 (utc 1577836800000) = Some 864000000"
    by (simp_all add: availableTimelineDurationMs_valid)
  have le: "(86400000 :: real) \<le> 864000000"
    by simp
  have vals: "maxDurationMsPerTimelinePx 1577923200000 (utc 1577836800000) = Some 216000"
    "maxDurationMsPerTimelinePx 1578700800000 (utc 1577836800000) = Some 2160000"
    by (simp_all add: maxDuration_valid baseClamp_def)
  from maxDurationMsPerTimelinePx_mono [OF spans le] spans le vals
  show ?thesis by simp
qed

text \<open>
  The scenario of a ten day history, from the first to the eleventh day of 2020: the
  span of 864,000,000 ms over 400 pixels is 2,160,000 ms per pixel, not 36,000,000.
\<close>

theorem maxDurationMsPerTimelinePx_scenario_counterexample:
  "maxDurationMsPerTimelinePx 1578700800000
     \<lparr>chars = ''2020-01-01T00:00:00Z'', moment = Some 1577836800000\<rparr> \<noteq> Some 36000000"
  by (simp add: maxDuration_valid baseClamp_def)

lemma maxDurationMsPerTimelinePx_ten_days:
  "maxDurationMsPerTimelinePx 1578700800000
     \<lparr>chars = ''2020-01-01T00:00:00Z'', moment = Some 1577836800000\<rparr> = Some 2160000"
  by (simp add: maxDuration_valid baseClamp_def)

lemma utc_ten_days: "chars (utc 1578700800000) = ''2020-01-11T00:00:00Z''"
  by (simp add: utc_simps)

text \<open>
  C4, amended. With the earliest timestamp \<^verbatim>\<open>2020-01-01T00:00:00Z\<close> and the current time
  \<^verbatim>\<open>2020-01-11T00:00:00Z\<close>, the largest duration per pixel is the span of ten days divided
  by 400, that is 2,160,000 ms, which is below the ceiling of three days, 259,200,000 ms;
  the initial duration per pixel is a tenth of it, 216,000 ms, clamped between 500 ms and
  60,000 ms, that is 60,000 ms.
\<close>

theorem durations_ten_day_scenario:
  "chars (formattedTimestamp 1578700800000 None) = ''2020-01-11T00:00:00Z''
   \<and> maxDurationMsPerTimelinePx 1578700800000
       \<lparr>chars = ''2020-01-01T00:00:00Z'', moment = Some 1577836800000\<rparr>
     = Some (real_of_int (1578700800000 - 1577836800000) / 400)
   \<and> maxDurationMsPerTimelinePx 1578700800000
       \<lparr>chars = ''2020-01-01T00:00:00Z'', moment = Some 1577836800000\<rparr>
     = Some 2160000
   \<and> (2160000 :: real) < 3 * 24 * 60 * 60 * 1000
   \<and> initialDurationMsPerTimelinePx 1578700800000
       \<lparr>chars = ''2020-01-01T00:00:00Z'', moment = Some 1577836800000\<rparr>
     = clamp (Some (2160000 * (1 / 10))) (Some 500) (Some 60000)
   \<and> initialDurationMsPerTimelinePx 1578700800000
       \<lparr>chars = ''2020-01-01T00:00:00Z'', moment = Some 1577836800000\<rparr>
     = Some 60000"
  by (simp add: initialDurationMsPerTimelinePx_def maxDurationMsPerTimelinePx_ten_days
      minDurationMsPerTimelinePx_def clamp_def baseClamp_def utc_ten_days)

lemma clampedDuration_lower:
  "\<exists>x. clampedDuration clock this duration = Some x \<and> minDurationMsPerTimelinePx \<le> x"
  by (simp add: clampedDuration_def clamp_def baseClamp_lower)

lemma clampedDuration_upper:
  "clampedDuration clock this duration = Some x
   \<Longrightarrow> maxDurationMsPerTimelinePx clock (earliestTimestamp (props this)) = Some m
   \<Longrightarrow> x \<le> m"
proof -
  assume x: "clampedDuration clock this duration = Some x"
    and m: "maxDurationMsPerTimelinePx clock (earliestTimestamp (props this)) = Some m"
  from maxDuration_bounds [OF m] have "minDurationMsPerTimelinePx \<le> m"
    by (simp add: minDurationMsPerTimelinePx_def)
  then have "baseClamp duration minDurationMsPerTimelinePx m \<le> m"
    by (rule baseClamp_upper)
  with x m show "x \<le> m"
    by (auto simp add: clampedDuration_def clamp_def)
qed

text \<open>
  C10. For every candidate duration, zooming sets \<^verbatim>\<open>durationMsPerPixel\<close> to the clamped
  candidate and schedules the report of the zoom level; the focused timestamp, the live
  flag, the range, the current time and the width of the timeline stay as they are, and
  so do the properties, the pending timestamp notification and the trace of callbacks.
  In particular a component that shows live keeps showing live.
\<close>

theorem handleTimelineZoom_frame:
  "durationMsPerPixel (state (handleTimelineZoom clock d this))
     = clampedDuration clock this d
   \<and> delayedReportZoom (handleTimelineZoom clock d this) = Some ((), clock)
   \<and> state (handleTimelineZoom clock d this)
       = (state this)\<lparr>durationMsPerPixel := clampedDuration clock this d\<rparr>
   \<and> focusedTimestamp (state (handleTimelineZoom clock d this)) = focusedTimestamp (state this)
   \<and> state.showingLive (state (handleTimelineZoom clock d this))
       = state.showingLive (state this)
   \<and> state.rangeMs (state (handleTimelineZoom clock d this)) = state.rangeMs (state this)
   \<and> timestampNow (state (handleTimelineZoom clock d this)) = timestampNow (state this)
   \<and> timelineWidthPx (state (handleTimelineZoom clock d this)) = timelineWidthPx (state this)
   \<and> props (handleTimelineZoom clock d this) = props this
   \<and> delayedOnChangeTimestamp (handleTimelineZoom clock d this) = delayedOnChangeTimestamp this
   \<and> calls (handleTimelineZoom clock d this) = calls this"
  by (simp add: handleTimelineZoom_def debounced_def Let_def)

subsection \<open>Setting the focused timestamp\<close>

lemma clampedTimestamp_showingLive [simp]:
  "clampedTimestamp clock (this\<lparr>state := (state this)\<lparr>state.showingLive := b\<rparr>\<rparr>) t
   = clampedTimestamp clock this t"
  by (simp add: clampedTimestamp_def)

lemma setFocusedTimestamp_props [simp]: "props (setFocusedTimestamp clock t this) = props this"
  by (simp add: setFocusedTimestamp_def Let_def)

lemma setFocusedTimestamp_showingLive [simp]:
  "state.showingLive (state (setFocusedTimestamp clock t this)) = state.showingLive (state this)"
  by (simp add: setFocusedTimestamp_def Let_def)

lemma setFocusedTimestamp_now [simp]:
  "timestampNow (state (setFocusedTimestamp clock t this)) = timestampNow (state this)"
  by (simp add: setFocusedTimestamp_def Let_def)

lemma setFocusedTimestamp_duration [simp]:
  "durationMsPerPixel (state (setFocusedTimestamp clock t this)) = durationMsPerPixel (state this)"
  by (simp add: setFocusedTimestamp_def Let_def)

lemma setFocusedTimestamp_focused [simp]:
  "chars (focusedTimestamp (state (setFocusedTimestamp clock t this)))
   = chars (clampedTimestamp clock this t)"
  by (simp add: setFocusedTimestamp_def Let_def)

subsection \<open>Live mode\<close>

text \<open>
  With the default properties live mode is not supported, and yet the state starts with
  \<^verbatim>\<open>showingLive\<close> true, the default of the property; and the toggle sets \<^verbatim>\<open>showingLive\<close>
  to its argument whether live mode is supported or not.
\<close>

theorem showingLive_without_liveMode_counterexample:
  "\<not> hasLiveMode defaultProps
   \<and> state.showingLive (state (constructor 1600000000000 defaultProps))
   \<and> state.showingLive (state (handleLiveModeToggle True
        (constructor 1600000000000 (defaultProps\<lparr>props.showingLive := False\<rparr>))))"
  by (simp add: handleLiveModeToggle_def constructor_def defaultProps_def Let_def)

lemma step_keeps_hasLiveMode: "hasLiveMode (props (step e this)) = hasLiveMode (props this)"
proof (cases e)
  case (Pair clock ev)
  show ?thesis unfolding Pair
    by (cases ev)
       (simp_all add: handleTimelinePan_def handleTimelineRelease_def handleTimelineZoom_def
          handleTimelineJump_def handleInputChange_def handleTimelinePanButtonClick_def
          handleRangeChange_def handleLiveModeToggle_def handleTimelineResize_def tick_def
          componentWillReceiveProps_def onChangeTimestampTimer_def Let_def
          split: option.splits prod.splits)
qed

lemma shouldSticky_needs_liveMode:
  "\<not> hasLiveMode (props this) \<Longrightarrow> \<not> shouldStickySwitchToLiveMode this nextState"
  by (simp add: shouldStickySwitchToLiveMode_def Let_def)

lemma step_keeps_not_showingLive:
  assumes "\<not> hasLiveMode (props this)" and "\<not> state.showingLive (state this)"
    and "snd e \<noteq> ToggleLive True"
  shows "\<not> state.showingLive (state (step e this))"
proof (cases e)
  case (Pair clock ev)
  show ?thesis using assms unfolding Pair
    by (cases ev)
       (simp_all add: handleTimelinePan_def handleTimelineRelease_def handleTimelineZoom_def
          handleTimelineJump_def handleInputChange_def handleTimelinePanButtonClick_def
          handleRangeChange_def handleLiveModeToggle_def handleTimelineResize_def tick_def
          componentWillReceiveProps_def onChangeTimestampTimer_def Let_def
          shouldSticky_needs_liveMode
          split: option.splits prod.splits)
qed

lemma run_keeps_not_showingLive:
  "\<not> hasLiveMode (props this) \<Longrightarrow> \<not> state.showingLive (state this)
   \<Longrightarrow> \<forall>e \<in> set es. snd e \<noteq> ToggleLive True
   \<Longrightarrow> \<not> state.showingLive (state (run es this))"
proof (induction es arbitrary: this)
  case Nil
  then show ?case by simp
next
  case (Cons e es)
  have "\<not> hasLiveMode (props (step e this))"
    using Cons.prems(1) by (simp add: step_keeps_hasLiveMode)
  moreover have "\<not> state.showingLive (state (step e this))"
    using Cons.prems by (intro step_keeps_not_showingLive) simp_all
  ultimately show ?case using Cons.IH Cons.prems(3) by simp
qed

text \<open>
  C1, amended. In a session that is configured with \<^verbatim>\<open>hasLiveMode\<close> false and with the
  property \<^verbatim>\<open>showingLive\<close> false, \<^verbatim>\<open>showingLive\<close> is false in the initial state and after
  every sequence of events in which the live toggle is never switched on.
\<close>

theorem showingLive_stays_false:
  assumes "\<not> hasLiveMode p" and "\<not> props.showingLive p"
    and "\<forall>e \<in> set es. snd e \<noteq> ToggleLive True"
  shows "\<not> state.showingLive (state (run es (constructor clock p)))"
  using assms by (intro run_keeps_not_showingLive) (simp_all add: constructor_def)

theorem showingLive_stays_false_witness:
  "\<not> hasLiveMode (defaultProps\<lparr>props.showingLive := False\<rparr>)
   \<and> \<not> props.showingLive (defaultProps\<lparr>props.showingLive := False\<rparr>)
   \<and> \<not> state.showingLive (state (run
         [(1600000000100, Pan (utc 1599999000000)), (1600000000200, PanRelease),
          (1600000001000, Tick), (1600000001500, PanButton (utc 1600006000000)),
          (1600000001600, ToggleLive False), (1600000001700, Jump (utc 1599999500000)),
          (1600000001800, Zoom 1000), (1600000002000, Tick)]
         (constructor 1600000000000 (defaultProps\<lparr>props.showingLive := False\<rparr>))))"
  using showingLive_stays_false
    [of "defaultProps\<lparr>props.showingLive := False\<rparr>"
        "[(1600000000100, Pan (utc 1599999000000)), (1600000000200, PanRelease),
          (1600000001000, Tick), (1600000001500, PanButton (utc 1600006000000)),
          (1600000001600, ToggleLive False), (1600000001700, Jump (utc 1599999500000)),
          (1600000001800, Zoom 1000), (1600000002000, Tick)]"
        1600000000000]
  by (simp add: defaultProps_def)

text \<open>
  A component with the default properties, where live mode is not supported, starts with
  \<^verbatim>\<open>showingLive\<close> true; a tick one second later moves the current time and leaves the
  focused timestamp behind.
\<close>

theorem tick_without_liveMode_counterexample:
  "state.showingLive (state (constructor 1600000000000 defaultProps))
   \<and> focusedTimestamp (state (tick 1600000001000 (constructor 1600000000000 defaultProps)))
      \<noteq> timestampNow (state (tick 1600000001000 (constructor 1600000000000 defaultProps)))
   \<and> chars (focusedTimestamp (state (tick 1600000001000
        (constructor 1600000000000 defaultProps)))) = ''2020-09-13T12:26:40Z''
   \<and> chars (timestampNow (state (tick 1600000001000
        (constructor 1600000000000 defaultProps)))) = ''2020-09-13T12:26:41Z''"
  by (simp add: tick_def constructor_def defaultProps_def formattedTimestamp_def Let_def
      utc_simps)

text \<open>
  C3, amended. In every state in which live mode is supported and \<^verbatim>\<open>showingLive\<close> is true,
  the focused timestamp equals the current time right after a tick; and right after the
  live toggle is switched on, the focused timestamp equals the current time.
\<close>

theorem live_focus_follows_now:
  "(hasLiveMode (props this) \<and> state.showingLive (state this)
      \<longrightarrow> focusedTimestamp (state (tick clock this)) = timestampNow (state (tick clock this)))
   \<and> focusedTimestamp (state (handleLiveModeToggle True this))
       = timestampNow (state (handleLiveModeToggle True this))"
  by (simp add: tick_def handleLiveModeToggle_def Let_def)

theorem live_focus_follows_now_witness:
  "hasLiveMode (props (constructor 1600000000000 (defaultProps\<lparr>hasLiveMode := True\<rparr>)))
   \<and> state.showingLive (state (constructor 1600000000000 (defaultProps\<lparr>hasLiveMode := True\<rparr>)))
   \<and> focusedTimestamp (state (tick 1600000001000
         (constructor 1600000000000 (defaultProps\<lparr>hasLiveMode := True\<rparr>))))
       = timestampNow (state (tick 1600000001000
         (constructor 1600000000000 (defaultProps\<lparr>hasLiveMode := True\<rparr>))))
   \<and> timestampNow (state (tick 1600000001000
         (constructor 1600000000000 (defaultProps\<lparr>hasLiveMode := True\<rparr>))))
       = utc 1600000001000"
  using live_focus_follows_now
    [of "constructor 1600000000000 (defaultProps\<lparr>hasLiveMode := True\<rparr>)" 1600000001000]
  by (simp add: constructor_def defaultProps_def tick_def Let_def)


subsection \<open>The states of a session\<close>

lemma initialDuration_lower:
  "initialDurationMsPerTimelinePx clock e = Some d \<Longrightarrow> minDurationMsPerTimelinePx \<le> d"
  by (auto simp add: initialDurationMsPerTimelinePx_def clamp_def baseClamp_lower
      split: option.splits)

lemma step_keeps_duration:
  assumes "\<forall>d. durationMsPerPixel (state this) = Some d \<longrightarrow> minDurationMsPerTimelinePx \<le> d"
  shows "\<forall>d. durationMsPerPixel (state (step e this)) = Some d
           \<longrightarrow> minDurationMsPerTimelinePx \<le> d"
proof (cases e)
  case (Pair clock ev)
  show ?thesis
  proof (cases ev)
    case (Zoom z)
    then show ?thesis
      using clampedDuration_lower [of clock this z]
      by (auto simp add: Pair handleTimelineZoom_def Let_def)
  next
    case (SetRange r)
    then show ?thesis
      using clampedDuration_lower [of clock this "r / (timelineWidthPx (state this) / 3)"]
      by (auto simp add: Pair handleRangeChange_def Let_def)
  qed (use assms in \<open>simp_all add: Pair handleTimelinePan_def handleTimelineRelease_def
          handleTimelineJump_def handleInputChange_def handleTimelinePanButtonClick_def
          handleLiveModeToggle_def handleTimelineResize_def tick_def
          componentWillReceiveProps_def onChangeTimestampTimer_def Let_def
          split: option.splits prod.splits\<close>)
qed

lemma run_keeps_duration:
  "\<forall>d. durationMsPerPixel (state this) = Some d \<longrightarrow> minDurationMsPerTimelinePx \<le> d
   \<Longrightarrow> \<forall>d. durationMsPerPixel (state (run es this)) = Some d
         \<longrightarrow> minDurationMsPerTimelinePx \<le> d"
proof (induction es arbitrary: this)
  case Nil
  then show ?case by simp
next
  case (Cons e es)
  have "\<forall>d. durationMsPerPixel (state (step e this)) = Some d
      \<longrightarrow> minDurationMsPerTimelinePx \<le> d"
    by (rule step_keeps_duration [OF Cons.prems])
  from Cons.IH [OF this] show ?case by simp
qed

text \<open>
  In every state of a session the duration per pixel is \<^verbatim>\<open>NaN\<close> or at least 500
  milliseconds, and the current time is a reading of the clock that
  \<^verbatim>\<open>formattedTimestamp\<close> has formatted.
\<close>

lemma reachable_duration:
  assumes "durationMsPerPixel (state (run es (constructor clock p))) = Some d"
  shows "500 \<le> d"
proof -
  have "\<forall>d. durationMsPerPixel (state (constructor clock p)) = Some d
      \<longrightarrow> minDurationMsPerTimelinePx \<le> d"
    by (simp add: constructor_def initialDuration_lower)
  from run_keeps_duration [OF this, of es] assms show ?thesis
    by (simp add: minDurationMsPerTimelinePx_def)
qed

lemma step_keeps_now:
  assumes "\<exists>c. timestampNow (state this) = utc c"
  shows "\<exists>c. timestampNow (state (step e this)) = utc c"
proof (cases e)
  case (Pair clock ev)
  show ?thesis
  proof (cases ev)
    case Tick
    have "timestampNow (state (tick clock this)) = utc clock"
      by (simp add: tick_def Let_def)
    then show ?thesis unfolding Pair Tick by auto
  qed (use assms in \<open>simp_all add: Pair handleTimelinePan_def handleTimelineRelease_def
          handleTimelineZoom_def handleTimelineJump_def handleInputChange_def
          handleTimelinePanButtonClick_def handleRangeChange_def handleLiveModeToggle_def
          handleTimelineResize_def componentWillReceiveProps_def onChangeTimestampTimer_def
          Let_def split: option.splits prod.splits\<close>)
qed

lemma reachable_now: "\<exists>c. timestampNow (state (run es (constructor clock p))) = utc c"
proof -
  have "\<exists>c. timestampNow (state this) = utc c
      \<Longrightarrow> \<exists>c. timestampNow (state (run es this)) = utc c" for this
  proof (induction es arbitrary: this)
    case Nil
    then show ?case by simp
  next
    case (Cons e es)
    from Cons.IH [OF step_keeps_now [OF Cons.prems]] show ?case by simp
  qed
  moreover have "timestampNow (state (constructor clock p)) = utc clock"
    by (simp add: constructor_def)
  ultimately show ?thesis by blast
qed

subsection \<open>The sticky switch to live mode\<close>

lemma shouldSticky_Some:
  "durationMsPerPixel (state this) = Some d \<Longrightarrow> timestampNow (state this) = utc c \<Longrightarrow>
   shouldStickySwitchToLiveMode this (Some t)
   = ((\<exists>f. moment t = Some f \<and> real_of_int (c - f) / d < 10)
      \<and> hasLiveMode (props this) \<and> \<not> state.showingLive (state this))"
  by (cases "moment t")
     (simp_all add: shouldStickySwitchToLiveMode_def getTimeScale_def Let_def)

lemma clampedTimestamp_now:
  "timestampNow (state this) = utc c
   \<Longrightarrow> clampedTimestamp clock this (timestampNow (state this)) = timestampNow (state this)"
  by (auto simp add: clampedTimestamp_def Let_def truthy_def)

text \<open>
  A paused component with live mode, at one minute per pixel, and a click on the pan
  button with a timestamp 100 minutes after the current time: in the scale around that
  timestamp the current time lies 100 pixels to the left, which is not within 10 pixels
  of the focus, and the component switches to live.
\<close>

theorem panButton_far_right_counterexample:
  "hasLiveMode (props (constructor 1600000000000
      (defaultProps\<lparr>hasLiveMode := True, props.showingLive := False\<rparr>)))
   \<and> \<not> state.showingLive (state (constructor 1600000000000
      (defaultProps\<lparr>hasLiveMode := True, props.showingLive := False\<rparr>)))
   \<and> durationMsPerPixel (state (constructor 1600000000000
      (defaultProps\<lparr>hasLiveMode := True, props.showingLive := False\<rparr>))) = Some 60000
   \<and> getTimeScale (utc 1600006000000) (Some 60000)
        (moment (timestampNow (state (constructor 1600000000000
          (defaultProps\<lparr>hasLiveMode := True, props.showingLive := False\<rparr>))))) = Some (- 100)
   \<and> state.showingLive (state (handleTimelinePanButtonClick 1600000000500 (utc 1600006000000)
      (constructor 1600000000000
        (defaultProps\<lparr>hasLiveMode := True, props.showingLive := False\<rparr>))))"
proof -
  let ?s = "constructor 1600000000000
    (defaultProps\<lparr>hasLiveMode := True, props.showingLive := False\<rparr>)"
  have facts: "hasLiveMode (props ?s)" "\<not> state.showingLive (state ?s)"
    "timestampNow (state ?s) = utc 1600000000000"
    by (simp_all add: constructor_def defaultProps_def)
  have d: "durationMsPerPixel (state ?s) = Some 60000"
    by (simp add: constructor_def defaultProps_def initialDurationMsPerTimelinePx_def
        maxDuration_valid minDurationMsPerTimelinePx_def clamp_def baseClamp_def)
  have scale: "getTimeScale (utc 1600006000000) (Some 60000) (moment (timestampNow (state ?s)))
      = Some (- 100)"
    by (simp add: facts getTimeScale_def)
  have "shouldStickySwitchToLiveMode ?s (Some (utc 1600006000000))"
    by (simp add: shouldSticky_Some [OF d facts(3)] facts)
  then have "state.showingLive (state
      (handleTimelinePanButtonClick 1600000000500 (utc 1600006000000) ?s))"
    by (simp add: handleTimelinePanButtonClick_def Let_def)
  with facts d scale show ?thesis by simp
qed

text \<open>
  C7, amended. When the pan button is clicked with a timestamp \<open>t\<close>, live mode is
  supported, the component does not show live, and in the scale around \<open>t\<close> the current
  time lies less than 10 pixels to the right of the focus (at 3 pixels, say, or anywhere
  to the left of it, as for every \<open>t\<close> after the current time), then the component shows
  live afterwards and the focused timestamp is the current time. Otherwise it does not
  show live afterwards and the focused timestamp is the clamped \<open>t\<close>. Timestamps are equal
  as strings. The duration per pixel is a positive number and the current time is a
  formatted reading of the clock, as they are in every state of a session unless the
  duration is \<^verbatim>\<open>NaN\<close>.
\<close>

theorem panButton_sticky:
  assumes "durationMsPerPixel (state this) = Some d" and "0 < d"
    and "timestampNow (state this) = utc c"
  shows "(if (\<exists>f. moment t = Some f \<and> real_of_int (c - f) / d < 10)
             \<and> hasLiveMode (props this) \<and> \<not> state.showingLive (state this)
          then state.showingLive (state (handleTimelinePanButtonClick clock t this))
             \<and> chars (focusedTimestamp (state (handleTimelinePanButtonClick clock t this)))
                 = chars (timestampNow (state this))
          else \<not> state.showingLive (state (handleTimelinePanButtonClick clock t this))
             \<and> chars (focusedTimestamp (state (handleTimelinePanButtonClick clock t this)))
                 = chars (clampedTimestamp clock this t))
         \<and> timestampNow (state (handleTimelinePanButtonClick clock t this))
             = timestampNow (state this)"
proof (cases "shouldStickySwitchToLiveMode this (Some t)")
  case True
  have now: "clampedTimestamp clock (this\<lparr>state := (state this)\<lparr>state.showingLive := True\<rparr>\<rparr>)
          (timestampNow (state this)) = timestampNow (state this)"
    using clampedTimestamp_now [OF assms(3)] by simp
  from True have "(\<exists>f. moment t = Some f \<and> real_of_int (c - f) / d < 10)
      \<and> hasLiveMode (props this) \<and> \<not> state.showingLive (state this)"
    by (simp add: shouldSticky_Some [OF assms(1) assms(3)])
  then show ?thesis using True now
    by (simp add: handleTimelinePanButtonClick_def Let_def)
next
  case False
  then have "\<not> ((\<exists>f. moment t = Some f \<and> real_of_int (c - f) / d < 10)
      \<and> hasLiveMode (props this) \<and> \<not> state.showingLive (state this))"
    by (simp add: shouldSticky_Some [OF assms(1) assms(3)])
  then show ?thesis using False
    by (simp add: handleTimelinePanButtonClick_def Let_def)
qed


lemma utc_more_examples:
  "chars (utc 1599999820000) = ''2020-09-13T12:23:40Z''"
  "chars (utc 1599994000000) = ''2020-09-13T10:46:40Z''"
  "chars (utc 1599998000000) = ''2020-09-13T11:53:20Z''"
  by (simp_all add: utc_simps)

text \<open>
  Two instances in the paused component with live mode: a timestamp three minutes before
  the current time, where the current time lies at 3 pixels and the component switches
  to live, and a timestamp 100 minutes before the current time, which is committed.
\<close>

theorem panButton_sticky_witness:
  "durationMsPerPixel (state (constructor 1600000000000
      (defaultProps\<lparr>hasLiveMode := True, props.showingLive := False\<rparr>))) = Some 60000
   \<and> timestampNow (state (constructor 1600000000000
      (defaultProps\<lparr>hasLiveMode := True, props.showingLive := False\<rparr>))) = utc 1600000000000
   \<and> real_of_int (1600000000000 - 1599999820000) / 60000 = 3
   \<and> state.showingLive (state (handleTimelinePanButtonClick 1600000000500 (utc 1599999820000)
      (constructor 1600000000000
        (defaultProps\<lparr>hasLiveMode := True, props.showingLive := False\<rparr>))))
   \<and> chars (focusedTimestamp (state
        (handleTimelinePanButtonClick 1600000000500 (utc 1599999820000)
          (constructor 1600000000000
            (defaultProps\<lparr>hasLiveMode := True, props.showingLive := False\<rparr>)))))
     = ''2020-09-13T12:26:40Z''
   \<and> \<not> state.showingLive (state (handleTimelinePanButtonClick 1600000000500 (utc 1599994000000)
      (constructor 1600000000000
        (defaultProps\<lparr>hasLiveMode := True, props.showingLive := False\<rparr>))))
   \<and> chars (focusedTimestamp (state
        (handleTimelinePanButtonClick 1600000000500 (utc 1599994000000)
          (constructor 1600000000000
            (defaultProps\<lparr>hasLiveMode := True, props.showingLive := False\<rparr>)))))
     = ''2020-09-13T10:46:40Z''"
proof -
  let ?s = "constructor 1600000000000
    (defaultProps\<lparr>hasLiveMode := True, props.showingLive := False\<rparr>)"
  have d: "durationMsPerPixel (state ?s) = Some 60000"
    by (simp add: constructor_def defaultProps_def initialDurationMsPerTimelinePx_def
        maxDuration_valid minDurationMsPerTimelinePx_def clamp_def baseClamp_def)
  have pos: "(0::real) < 60000" by simp
  have now: "timestampNow (state ?s) = utc 1600000000000"
    by (simp add: constructor_def)
  have facts: "hasLiveMode (props ?s)" "\<not> state.showingLive (state ?s)"
    "chars (earliestTimestamp (props ?s)) = ''2014-01-01T00:00:00Z''"
    by (simp_all add: constructor_def defaultProps_def)
  have clamped: "chars (clampedTimestamp 1600000000500 ?s (utc 1599994000000))
      = ''2020-09-13T10:46:40Z''"
    by (simp add: clampedTimestamp_def facts now truthy_def utc_examples utc_more_examples
        Let_def)
  from panButton_sticky [OF d pos now, of "utc 1599999820000" 1600000000500]
       panButton_sticky [OF d pos now, of "utc 1599994000000" 1600000000500]
       d now facts clamped
  show ?thesis by (simp add: utc_examples)
qed

subsection \<open>The debounced notification\<close>

lemma timer_idle:
  "delayedOnChangeTimestamp this = None \<Longrightarrow> onChangeTimestampTimer clock this = this"
  by (simp add: onChangeTimestampTimer_def timerExpired_def)

lemma timer_early:
  "delayedOnChangeTimestamp this = Some (v, c) \<Longrightarrow> c \<le> w \<Longrightarrow> w - c < 500
   \<Longrightarrow> onChangeTimestampTimer w this = this"
  by (simp add: onChangeTimestampTimer_def timerExpired_def Let_def)

lemma timer_due:
  "delayedOnChangeTimestamp this = Some (v, c) \<Longrightarrow> c + 500 \<le> w
   \<Longrightarrow> onChangeTimestampTimer w this
       = this\<lparr>delayedOnChangeTimestamp := None, calls := calls this @ [OnChangeTimestamp v]\<rparr>"
  by (simp add: onChangeTimestampTimer_def timerExpired_def Let_def)

lemma run_timers_idle:
  "delayedOnChangeTimestamp this = None \<Longrightarrow> run (timers ws) this = this"
  by (induction ws) (simp_all add: timers_def timer_idle)

lemma run_timers_early:
  "delayedOnChangeTimestamp this = Some (v, c) \<Longrightarrow> \<forall>w \<in> set ws. c \<le> w \<and> w - c < 500
   \<Longrightarrow> run (timers ws) this = this"
  by (induction ws) (simp_all add: timers_def timer_early)

lemma run_timers_due:
  "delayedOnChangeTimestamp this = Some (v, c) \<Longrightarrow> \<forall>w \<in> set ws. c \<le> w
   \<Longrightarrow> \<exists>w \<in> set ws. c + 500 \<le> w
   \<Longrightarrow> run (timers ws) this
       = this\<lparr>delayedOnChangeTimestamp := None, calls := calls this @ [OnChangeTimestamp v]\<rparr>"
proof (induction ws)
  case Nil
  then show ?case by simp
next
  case (Cons w ws)
  show ?case
  proof (cases "c + 500 \<le> w")
    case True
    have "run (timers (w # ws)) this = run (timers ws) (onChangeTimestampTimer w this)"
      by (simp add: timers_def)
    also have "\<dots> = onChangeTimestampTimer w this"
      by (rule run_timers_idle) (simp add: timer_due [OF Cons.prems(1) True])
    finally show ?thesis by (simp add: timer_due [OF Cons.prems(1) True])
  next
    case False
    with Cons.prems have early: "c \<le> w" "w - c < 500"
      and rest: "\<exists>w \<in> set ws. c + 500 \<le> w"
      by auto
    have "run (timers (w # ws)) this = run (timers ws) (onChangeTimestampTimer w this)"
      by (simp add: timers_def)
    also have "\<dots> = run (timers ws) this"
      by (simp add: timer_early [OF Cons.prems(1) early])
    finally show ?thesis using Cons.IH Cons.prems rest by simp
  qed
qed

lemma handleTimelinePan_pending:
  "delayedOnChangeTimestamp (handleTimelinePan clock t this)
   = Some (clampedTimestamp clock this t, clock)"
  by (simp add: handleTimelinePan_def debounced_def Let_def)

lemma handleTimelinePan_calls: "calls (handleTimelinePan clock t this) = calls this"
  by (simp add: handleTimelinePan_def Let_def)

lemma handleTimelinePan_clamped:
  "clampedTimestamp clock' (handleTimelinePan clock t this) t' = clampedTimestamp clock' this t'"
  by (simp add: handleTimelinePan_def clampedTimestamp_def Let_def)

text \<open>
  C5. For all timestamps \<open>t1\<close> and \<open>t2\<close>: a pan to \<open>t1\<close> at time \<open>c1\<close> and a pan to \<open>t2\<close> at
  time \<open>c2\<close>, less than 500 milliseconds later, with nothing in between but expiries of
  the timer, and then expiries of the timer of which one comes 500 milliseconds after
  \<open>c2\<close> or later, make exactly one call of \<^verbatim>\<open>onChangeTimestamp\<close>, and its argument is the
  clamped \<open>t2\<close>.
\<close>

theorem two_pans_one_delivery:
  assumes window: "c1 \<le> c2" "c2 - c1 < 500"
    and between: "\<forall>w \<in> set ws1. c1 \<le> w \<and> w \<le> c2"
    and after: "\<forall>w \<in> set ws2. c2 \<le> w"
    and expiry: "\<exists>w \<in> set ws2. c2 + 500 \<le> w"
  shows "calls (run ((c1, Pan t1) # timers ws1 @ (c2, Pan t2) # timers ws2) this)
       = calls this @ [OnChangeTimestamp (clampedTimestamp c2 this t2)]"
proof -
  let ?pan1 = "handleTimelinePan c1 t1 this"
  let ?pan2 = "handleTimelinePan c2 t2 ?pan1"
  have early: "\<forall>w \<in> set ws1. c1 \<le> w \<and> w - c1 < 500"
    using window between by auto
  have first: "run (timers ws1) ?pan1 = ?pan1"
    by (rule run_timers_early [OF handleTimelinePan_pending early])
  have second: "run (timers ws2) ?pan2
      = ?pan2\<lparr>delayedOnChangeTimestamp := None,
               calls := calls ?pan2 @ [OnChangeTimestamp (clampedTimestamp c2 ?pan1 t2)]\<rparr>"
    by (rule run_timers_due [OF handleTimelinePan_pending after expiry])
  have "run ((c1, Pan t1) # timers ws1 @ (c2, Pan t2) # timers ws2) this
      = run (timers ws2) ?pan2"
    by (simp add: run_append first)
  then show ?thesis
    by (simp add: second handleTimelinePan_calls handleTimelinePan_clamped)
qed

text \<open>
  An instance: two pans 300 milliseconds apart in a new component, with the timer
  expiring once between them and three times after them.
\<close>

theorem two_pans_one_delivery_witness:
  "calls (run
     [(1600000000100, Pan (utc 1599999000000)), (1600000000300, ChangeTimer),
      (1600000000400, Pan (utc 1599998000000)), (1600000000600, ChangeTimer),
      (1600000000900, ChangeTimer), (1600000001500, ChangeTimer)]
     (constructor 1600000000000 defaultProps))
   = [OnChangeTimestamp (utc 1599998000000)]
   \<and> chars (utc 1599998000000) = ''2020-09-13T11:53:20Z''"
proof -
  have clamped: "clampedTimestamp 1600000000400 (constructor 1600000000000 defaultProps)
      (utc 1599998000000) = utc 1599998000000"
    by (simp add: clampedTimestamp_def constructor_def defaultProps_def truthy_def Let_def
        utc_examples utc_more_examples)
  have "calls (constructor 1600000000000 defaultProps) = []"
    by (simp add: constructor_def)
  with clamped show ?thesis
    using two_pans_one_delivery
      [of 1600000000100 1600000000400 "[1600000000300]"
          "[1600000000600, 1600000000900, 1600000001500]"
          "utc 1599999000000" "utc 1599998000000" "constructor 1600000000000 defaultProps"]
    by (simp add: timers_def utc_more_examples)
qed


subsection \<open>Jumps and the pending notification\<close>

lemma setFocusedTimestamp_idle:
  "delayedOnChangeTimestamp this = None
   \<Longrightarrow> delayedOnChangeTimestamp (setFocusedTimestamp clock t this) = None"
  by (simp add: setFocusedTimestamp_def cancel_def Let_def)

lemma handleTimelineRelease_idle:
  "delayedOnChangeTimestamp this = None
   \<Longrightarrow> delayedOnChangeTimestamp (handleTimelineRelease clock this) = None"
  by (simp add: handleTimelineRelease_def setFocusedTimestamp_idle Let_def)

lemma handleTimelineJump_idle:
  "delayedOnChangeTimestamp this = None
   \<Longrightarrow> delayedOnChangeTimestamp (handleTimelineJump clock t this) = None"
  by (simp add: handleTimelineJump_def setFocusedTimestamp_idle Let_def)

lemma handleInputChange_idle:
  "delayedOnChangeTimestamp this = None
   \<Longrightarrow> delayedOnChangeTimestamp (handleInputChange clock t this) = None"
  by (simp add: handleInputChange_def setFocusedTimestamp_idle Let_def)

lemma handleTimelinePanButtonClick_idle:
  "delayedOnChangeTimestamp this = None
   \<Longrightarrow> delayedOnChangeTimestamp (handleTimelinePanButtonClick clock t this) = None"
  by (simp add: handleTimelinePanButtonClick_def setFocusedTimestamp_idle Let_def)

lemma componentWillReceiveProps_pending:
  "delayedOnChangeTimestamp (componentWillReceiveProps clock nextProps this)
   = delayedOnChangeTimestamp this"
  by (simp add: componentWillReceiveProps_def split: option.splits)

lemma step_keeps_idle:
  assumes idle: "delayedOnChangeTimestamp this = None" and "\<forall>t. snd e \<noteq> Pan t"
  shows "delayedOnChangeTimestamp (step e this) = None"
proof (cases e)
  case (Pair clock ev)
  with assms(2) have notPan: "\<forall>t. ev \<noteq> Pan t" by simp
  show ?thesis
  proof (cases ev)
    case (Pan t)
    with notPan show ?thesis by simp
  next
    case PanRelease
    then show ?thesis using idle by (simp add: Pair handleTimelineRelease_idle)
  next
    case (Zoom d)
    then show ?thesis using idle by (simp add: Pair handleTimelineZoom_def Let_def)
  next
    case (Jump t)
    then show ?thesis using idle by (simp add: Pair handleTimelineJump_idle)
  next
    case (InputChange t)
    then show ?thesis using idle by (simp add: Pair handleInputChange_idle)
  next
    case (PanButton t)
    then show ?thesis using idle by (simp add: Pair handleTimelinePanButtonClick_idle)
  next
    case (SetRange r)
    then show ?thesis using idle by (simp add: Pair handleRangeChange_def Let_def)
  next
    case (ToggleLive b)
    then show ?thesis using idle by (simp add: Pair handleLiveModeToggle_def Let_def)
  next
    case (Resize w)
    then show ?thesis using idle by (simp add: Pair handleTimelineResize_def)
  next
    case Tick
    then show ?thesis using idle by (simp add: Pair tick_def Let_def)
  next
    case (ReceiveProps t r l)
    then show ?thesis using idle
      by (simp add: Pair componentWillReceiveProps_pending Let_def)
  next
    case ChangeTimer
    then show ?thesis using idle by (simp add: Pair timer_idle)
  qed
qed

lemma run_idle_ignores_timers:
  "delayedOnChangeTimestamp this = None \<Longrightarrow> \<forall>e \<in> set es. \<forall>t. snd e \<noteq> Pan t
   \<Longrightarrow> run es this = run (filter (\<lambda>e. snd e \<noteq> ChangeTimer) es) this"
proof (induction es arbitrary: this)
  case Nil
  then show ?case by simp
next
  case (Cons e es)
  show ?case
  proof (cases "snd e = ChangeTimer")
    case True
    then obtain clock where e: "e = (clock, ChangeTimer)" by (cases e) simp
    have "step e this = this" by (simp add: e timer_idle Cons.prems(1))
    then show ?thesis using Cons True by simp
  next
    case False
    have "delayedOnChangeTimestamp (step e this) = None"
      using Cons.prems by (intro step_keeps_idle) simp_all
    then have "run es (step e this)
        = run (filter (\<lambda>e. snd e \<noteq> ChangeTimer) es) (step e this)"
      using Cons.prems(2) by (intro Cons.IH) simp_all
    then show ?thesis using False by simp
  qed
qed

lemma handleTimelineJump_changed:
  assumes "chars (clampedTimestamp clock this t) \<noteq> chars (focusedTimestamp (state this))"
  shows "delayedOnChangeTimestamp (handleTimelineJump clock t this) = None"
    and "calls (handleTimelineJump clock t this)
         = calls this @ [OnChangeTimestamp (clampedTimestamp clock this t), OnTimelineLabelClick]"
    and "focusedTimestamp (state (handleTimelineJump clock t this))
         = clampedTimestamp clock this t"
  using assms
  by (simp_all add: handleTimelineJump_def setFocusedTimestamp_def cancel_def Let_def)

lemma handleTimelineJump_unchanged:
  assumes "chars (clampedTimestamp clock this t) = chars (focusedTimestamp (state this))"
  shows "delayedOnChangeTimestamp (handleTimelineJump clock t this)
         = delayedOnChangeTimestamp this"
    and "calls (handleTimelineJump clock t this) = calls this @ [OnTimelineLabelClick]"
    and "focusedTimestamp (state (handleTimelineJump clock t this))
         = focusedTimestamp (state this)"
  using assms
  by (simp_all add: handleTimelineJump_def setFocusedTimestamp_def cancel_def Let_def)

lemma handleTimelineJump_showingLive:
  "\<not> state.showingLive (state (handleTimelineJump clock t this))"
  by (simp add: handleTimelineJump_def Let_def)

lemma pan_example:
  "timestampNow (state (handleTimelinePan 1600000000100 (utc 1599999000000)
     (constructor 1600000000000 defaultProps))) = utc 1600000000000"
  "focusedTimestamp (state (handleTimelinePan 1600000000100 (utc 1599999000000)
     (constructor 1600000000000 defaultProps))) = utc 1599999000000"
  "chars (earliestTimestamp (props (handleTimelinePan 1600000000100 (utc 1599999000000)
     (constructor 1600000000000 defaultProps)))) = ''2014-01-01T00:00:00Z''"
  "delayedOnChangeTimestamp (handleTimelinePan 1600000000100 (utc 1599999000000)
     (constructor 1600000000000 defaultProps)) = Some (utc 1599999000000, 1600000000100)"
  "calls (handleTimelinePan 1600000000100 (utc 1599999000000)
     (constructor 1600000000000 defaultProps)) = []"
  by (simp_all add: handleTimelinePan_def debounced_def clampedTimestamp_def constructor_def
      defaultProps_def truthy_def Let_def utc_examples)

text \<open>
  A pan leaves a notification pending. A jump to the timestamp that is already focused,
  or a switch of the live toggle, 100 milliseconds later does not cancel it: when the
  timer expires, 600 milliseconds after the pan, the notification is delivered.
\<close>

theorem pending_delivery_fires_counterexample:
  "calls (run [(1600000000100, Pan (utc 1599999000000)),
               (1600000000200, Jump (utc 1599999000000)),
               (1600000000700, ChangeTimer)]
            (constructor 1600000000000 defaultProps))
     = [OnTimelineLabelClick, OnChangeTimestamp (utc 1599999000000)]
   \<and> calls (run [(1600000000100, Pan (utc 1599999000000)), (1600000000200, ToggleLive True),
                 (1600000000700, ChangeTimer)]
              (constructor 1600000000000 defaultProps))
     = [OnChangeLiveMode True, OnChangeTimestamp (utc 1599999000000)]"
proof -
  let ?pan = "handleTimelinePan 1600000000100 (utc 1599999000000)
    (constructor 1600000000000 defaultProps)"
  have clamped: "clampedTimestamp 1600000000200 ?pan (utc 1599999000000) = utc 1599999000000"
    by (simp add: clampedTimestamp_def pan_example truthy_def Let_def utc_examples)
  have focused: "focusedTimestamp (state ?pan) = utc 1599999000000"
    by (simp add: pan_example)
  have jump: "delayedOnChangeTimestamp (handleTimelineJump 1600000000200 (utc 1599999000000) ?pan)
      = Some (utc 1599999000000, 1600000000100)"
    "calls (handleTimelineJump 1600000000200 (utc 1599999000000) ?pan) = [OnTimelineLabelClick]"
    by (simp_all add: handleTimelineJump_unchanged clamped focused pan_example)
  have toggle: "delayedOnChangeTimestamp (handleLiveModeToggle True ?pan)
      = Some (utc 1599999000000, 1600000000100)"
    "calls (handleLiveModeToggle True ?pan) = [OnChangeLiveMode True]"
    by (simp_all add: handleLiveModeToggle_def Let_def pan_example)
  show ?thesis
    by (simp add: timer_due [OF jump(1)] timer_due [OF toggle(1)] jump toggle)
qed

text \<open>
  C2, amended. When a notification is pending and a jump is made to a timestamp whose
  clamped value differs from the focused timestamp, the pending notification is
  cancelled and is never delivered afterwards, whatever the time of the jump: as long as
  no new pan schedules a notification, the expiries of the timer have no effect at all.
\<close>

theorem jump_cancels_pending_delivery:
  assumes "delayedOnChangeTimestamp this = Some (v, c)"
    and "chars (clampedTimestamp clock this t) \<noteq> chars (focusedTimestamp (state this))"
    and "\<forall>e \<in> set es. \<forall>t'. snd e \<noteq> Pan t'"
  shows "delayedOnChangeTimestamp (handleTimelineJump clock t this) = None
       \<and> run es (handleTimelineJump clock t this)
           = run (filter (\<lambda>e. snd e \<noteq> ChangeTimer) es) (handleTimelineJump clock t this)"
proof
  show idle: "delayedOnChangeTimestamp (handleTimelineJump clock t this) = None"
    by (rule handleTimelineJump_changed(1) [OF assms(2)])
  show "run es (handleTimelineJump clock t this)
      = run (filter (\<lambda>e. snd e \<noteq> ChangeTimer) es) (handleTimelineJump clock t this)"
    by (rule run_idle_ignores_timers [OF idle assms(3)])
qed

text \<open>
  An instance: the jump comes 600 milliseconds after the pan, when the delay of the
  pending notification has passed and its timer has not yet expired.
\<close>

theorem jump_cancels_pending_delivery_witness:
  "delayedOnChangeTimestamp
     (handleTimelinePan 1600000000100 (utc 1599999000000)
       (constructor 1600000000000 defaultProps))
     = Some (utc 1599999000000, 1600000000100)
   \<and> chars (clampedTimestamp 1600000000700
       (handleTimelinePan 1600000000100 (utc 1599999000000)
         (constructor 1600000000000 defaultProps))
       (utc 1599998000000)) = ''2020-09-13T11:53:20Z''
   \<and> chars (focusedTimestamp (state
       (handleTimelinePan 1600000000100 (utc 1599999000000)
         (constructor 1600000000000 defaultProps)))) = ''2020-09-13T12:10:00Z''
   \<and> delayedOnChangeTimestamp (handleTimelineJump 1600000000700 (utc 1599998000000)
       (handleTimelinePan 1600000000100 (utc 1599999000000)
         (constructor 1600000000000 defaultProps)))
     = None
   \<and> run [(1600000000800, ChangeTimer), (1600000001000, Tick), (1600000001300, ChangeTimer)]
       (handleTimelineJump 1600000000700 (utc 1599998000000)
         (handleTimelinePan 1600000000100 (utc 1599999000000)
           (constructor 1600000000000 defaultProps)))
     = run [(1600000001000, Tick)]
       (handleTimelineJump 1600000000700 (utc 1599998000000)
         (handleTimelinePan 1600000000100 (utc 1599999000000)
           (constructor 1600000000000 defaultProps)))"
proof -
  let ?pan = "handleTimelinePan 1600000000100 (utc 1599999000000)
    (constructor 1600000000000 defaultProps)"
  have pending: "delayedOnChangeTimestamp ?pan = Some (utc 1599999000000, 1600000000100)"
    by (simp add: pan_example)
  have clamped: "chars (clampedTimestamp 1600000000700 ?pan (utc 1599998000000))
      = ''2020-09-13T11:53:20Z''"
    by (simp add: clampedTimestamp_def pan_example truthy_def Let_def utc_examples
        utc_more_examples)
  have focused: "chars (focusedTimestamp (state ?pan)) = ''2020-09-13T12:10:00Z''"
    by (simp add: pan_example utc_examples)
  have changed: "chars (clampedTimestamp 1600000000700 ?pan (utc 1599998000000))
      \<noteq> chars (focusedTimestamp (state ?pan))"
    unfolding clamped focused by simp
  have noPan: "\<forall>e \<in> set [(1600000000800, ChangeTimer), (1600000001000, Tick),
      (1600000001300 :: instant, ChangeTimer)]. \<forall>t'. snd e \<noteq> Pan t'"
    by simp
  from jump_cancels_pending_delivery [OF pending changed noPan] pending clamped focused
  show ?thesis by simp
qed

text \<open>
  After a pan, a jump to the timestamp that the pan has focused leaves the notification
  of the pan pending.
\<close>

theorem jump_unchanged_keeps_pending_counterexample:
  "delayedOnChangeTimestamp
     (handleTimelinePan 1600000000100 (utc 1599999000000)
       (constructor 1600000000000 defaultProps))
     = Some (utc 1599999000000, 1600000000100)
   \<and> delayedOnChangeTimestamp
       (handleTimelineJump 1600000000200 (utc 1599999000000)
         (handleTimelinePan 1600000000100 (utc 1599999000000)
           (constructor 1600000000000 defaultProps)))
     = Some (utc 1599999000000, 1600000000100)"
proof -
  let ?pan = "handleTimelinePan 1600000000100 (utc 1599999000000)
    (constructor 1600000000000 defaultProps)"
  have "clampedTimestamp 1600000000200 ?pan (utc 1599999000000) = utc 1599999000000"
    by (simp add: clampedTimestamp_def pan_example truthy_def Let_def utc_examples)
  then have "chars (clampedTimestamp 1600000000200 ?pan (utc 1599999000000))
      = chars (focusedTimestamp (state ?pan))"
    by (simp add: pan_example)
  from handleTimelineJump_unchanged(1) [OF this] show ?thesis
    by (simp add: pan_example)
qed

text \<open>
  C6, amended. For every timestamp \<open>t\<close>, a jump to \<open>t\<close> sets \<^verbatim>\<open>showingLive\<close> to false. If
  the clamped \<open>t\<close> differs from the focused timestamp, the jump cancels the pending
  notification, calls \<^verbatim>\<open>onChangeTimestamp\<close> with the clamped \<open>t\<close> at once and focuses the
  clamped \<open>t\<close>, and the later expiries of the timer deliver nothing, so that after a
  pending pan only the value of the jump is delivered. If the clamped \<open>t\<close> equals the
  focused timestamp, the jump leaves the focused timestamp and the pending notification
  as they are and calls \<^verbatim>\<open>onChangeTimestamp\<close> not at all.
\<close>

theorem handleTimelineJump_effect:
  "\<not> state.showingLive (state (handleTimelineJump clock t this))
   \<and> (if chars (clampedTimestamp clock this t) \<noteq> chars (focusedTimestamp (state this))
      then delayedOnChangeTimestamp (handleTimelineJump clock t this) = None
         \<and> calls (handleTimelineJump clock t this)
             = calls this @ [OnChangeTimestamp (clampedTimestamp clock this t),
                             OnTimelineLabelClick]
         \<and> focusedTimestamp (state (handleTimelineJump clock t this))
             = clampedTimestamp clock this t
         \<and> calls (run (timers ws) (handleTimelineJump clock t this))
             = calls this @ [OnChangeTimestamp (clampedTimestamp clock this t),
                             OnTimelineLabelClick]
      else delayedOnChangeTimestamp (handleTimelineJump clock t this)
             = delayedOnChangeTimestamp this
         \<and> calls (handleTimelineJump clock t this) = calls this @ [OnTimelineLabelClick]
         \<and> focusedTimestamp (state (handleTimelineJump clock t this))
             = focusedTimestamp (state this))"
proof (cases "chars (clampedTimestamp clock this t) = chars (focusedTimestamp (state this))")
  case True
  then show ?thesis
    by (simp add: handleTimelineJump_unchanged handleTimelineJump_showingLive)
next
  case False
  then show ?thesis
    by (simp add: handleTimelineJump_changed run_timers_idle handleTimelineJump_showingLive)
qed

text \<open>
  An instance: a pan, then a jump to another timestamp, then two expiries of the timer.
\<close>

theorem handleTimelineJump_effect_witness:
  "calls (run (timers [1600000000800, 1600000001300])
       (handleTimelineJump 1600000000700 (utc 1599998000000)
         (handleTimelinePan 1600000000100 (utc 1599999000000)
           (constructor 1600000000000 defaultProps))))
     = [OnChangeTimestamp (utc 1599998000000), OnTimelineLabelClick]
   \<and> focusedTimestamp (state (handleTimelineJump 1600000000700 (utc 1599998000000)
         (handleTimelinePan 1600000000100 (utc 1599999000000)
           (constructor 1600000000000 defaultProps))))
     = utc 1599998000000
   \<and> delayedOnChangeTimestamp (handleTimelineJump 1600000000700 (utc 1599998000000)
         (handleTimelinePan 1600000000100 (utc 1599999000000)
           (constructor 1600000000000 defaultProps)))
     = None"
proof -
  let ?pan = "handleTimelinePan 1600000000100 (utc 1599999000000)
    (constructor 1600000000000 defaultProps)"
  have clamped: "clampedTimestamp 1600000000700 ?pan (utc 1599998000000) = utc 1599998000000"
    by (simp add: clampedTimestamp_def pan_example truthy_def Let_def utc_examples
        utc_more_examples)
  have facts: "focusedTimestamp (state ?pan) = utc 1599999000000" "calls ?pan = []"
    by (simp_all add: pan_example)
  from handleTimelineJump_effect
    [of 1600000000700 "utc 1599998000000" ?pan "[1600000000800, 1600000001300]"] clamped facts
  show ?thesis by (simp add: utc_examples utc_more_examples)
qed

end
